theory Spec2Isabelle
  imports Main
begin

section \<open>Errors of the driver and of the engine\<close>

text \<open>
  A Go \<^verbatim>\<open>error\<close> is an interface value: \<^verbatim>\<open>nil\<close>, or a value with a dynamic type and
  an \<^verbatim>\<open>Error()\<close> method. The source looks at exactly one thing of the dynamic type, the
  assertion \<^verbatim>\<open>err.(*mssql.ServerError)\<close>, and names one sentinel, \<^verbatim>\<open>server.ErrKeyExists\<close>.
  \<^item> \<open>ServerError n m\<close> is a \<^verbatim>\<open>*mssql.ServerError\<close> carrying the server's error number and
    message;
  \<^item> \<open>ErrKeyExists\<close> is the engine's sentinel;
  \<^item> \<open>OtherError m\<close> is an error of any other dynamic type (network, authentication,
    parse errors).

  An \<^verbatim>\<open>error\<close> result is a \<open>go_error option\<close>, \<open>None\<close> being \<^verbatim>\<open>nil\<close>. A result
  \<^verbatim>\<open>(T, error)\<close> is \<open>go_error + T\<close>.
\<close>

datatype go_error =
    ServerError int string
  | ErrKeyExists
  | OtherError string

fun is_ServerError :: "go_error \<Rightarrow> bool" where
  \<comment> \<open>\<^verbatim>\<open>_, ok := err.(*mssql.ServerError)\<close>\<close>
  "is_ServerError (ServerError n m) = True"
| "is_ServerError ErrKeyExists = False"
| "is_ServerError (OtherError m) = False"

fun Error :: "go_error \<Rightarrow> string" where
  \<comment> \<open>Modelled from the spec: \<^verbatim>\<open>server.ErrKeyExists\<close> is declared in pkg/server, which is
      not among the sources; the spec calls it the canonical "key exists" error. No
      theorem depends on its message. The \<^verbatim>\<open>Error()\<close> method of the driver's
      \<^verbatim>\<open>ServerError\<close> returns one fixed text, whatever the server reported.\<close>
  "Error (ServerError n m) = ''SQL Server had internal error''"
| "Error ErrKeyExists = ''key exists''"
| "Error (OtherError m) = m"

definition fmt_Sprint :: "go_error \<Rightarrow> string" where
  \<comment> \<open>\<^verbatim>\<open>fmt.Sprint\<close> of an operand that implements \<^verbatim>\<open>error\<close> prints its \<^verbatim>\<open>Error()\<close>.\<close>
  "fmt_Sprint e = Error e"

section \<open>The dialect's error functions (closures set in New)\<close>

definition TranslateErr :: "go_error option \<Rightarrow> go_error option" where
  "TranslateErr err =
     (case err of
        None \<Rightarrow> err
      | Some e \<Rightarrow> if is_ServerError e then Some ErrKeyExists else err)"

definition ErrCode :: "go_error option \<Rightarrow> string" where
  "ErrCode err =
     (case err of
        None \<Rightarrow> ''''
      | Some e \<Rightarrow> if is_ServerError e then fmt_Sprint e else Error e)"

section \<open>The connection target\<close>

text \<open>
  \<^verbatim>\<open>msdsn.Config\<close> is the driver library's structure. The source reads and writes its
  \<^verbatim>\<open>Database\<close> field, and a disabled block would write \<^verbatim>\<open>TLSConfig\<close>; every other field
  (host, port, credentials, options) is the extension part of the record. The library's
  \<^verbatim>\<open>msdsn.Parse\<close> and \<^verbatim>\<open>Config.URL().String()\<close> are parameters of the functions that
  call them.
\<close>

record config =
  Database :: string
  TLSConfig :: string

type_synonym 'm msdsn_Parse = "string \<Rightarrow> go_error + 'm config_scheme"
type_synonym 'm URL_String = "'m config_scheme \<Rightarrow> string"

text \<open>
  \<^verbatim>\<open>*cryptotls.Config\<close>, as far as New touches it: the one field it sets.
\<close>

record tls_Config =
  MinVersion :: nat

definition prepareDSN ::
  "'m msdsn_Parse \<Rightarrow> 'm URL_String \<Rightarrow> string \<Rightarrow> tls_Config option \<Rightarrow> go_error + string" where
  \<comment> \<open>The block that would register \<open>tlsConfig\<close> under the name "kine" and store that name
      in \<open>config.TLSConfig\<close> is commented out in the source, so it is no part of the
      function.\<close>
  "prepareDSN Parse URL dataSourceName tlsConfig =
     (if length dataSourceName = 0 then Inr ''''
      else case Parse dataSourceName of
             Inl err \<Rightarrow> Inl err
           | Inr config \<Rightarrow>
               let dbName = (if length (Database config) > 0 then Database config
                             else ''kubernetes'')
               in Inr (URL (config\<lparr>Database := dbName\<rparr>)))"

definition dsn_config :: "'m msdsn_Parse \<Rightarrow> go_error + string \<Rightarrow> 'm config_scheme option" where
  \<comment> \<open>The connection target that the driver reads from a result of prepareDSN.\<close>
  "dsn_config Parse r =
     (case r of
        Inl err \<Rightarrow> None
      | Inr s \<Rightarrow> (case Parse s of Inl err \<Rightarrow> None | Inr c \<Rightarrow> Some c))"

section \<open>The schema and the statement that creates the database\<close>

definition nl :: string where
  "nl = [CHR 0x0A]"

definition tabs :: "nat \<Rightarrow> string" where
  "tabs n = replicate n (CHR 0x09)"

definition kine_table :: string where
  \<comment> \<open>The first raw string of \<open>schema\<close>, with its line breaks and indentation.\<close>
  "kine_table = concat
     [''CREATE TABLE IF NOT EXISTS kine'', nl,
      tabs 3, ''('', nl,
      tabs 4, ''id INTEGER AUTO_INCREMENT,'', nl,
      tabs 4, ''name VARCHAR(630),'', nl,
      tabs 4, ''created INTEGER,'', nl,
      tabs 4, ''deleted INTEGER,'', nl,
      tabs 4, ''create_revision INTEGER,'', nl,
      '' '', tabs 4, ''prev_revision INTEGER,'', nl,
      tabs 4, ''lease INTEGER,'', nl,
      tabs 4, ''value MEDIUMBLOB,'', nl,
      tabs 4, ''old_value MEDIUMBLOB,'', nl,
      tabs 4, ''PRIMARY KEY (id)'', nl,
      tabs 3, '');'']"

definition schema :: "string list" where
  "schema =
     [kine_table,
      ''CREATE INDEX kine_name_index ON kine (name)'',
      ''CREATE INDEX kine_name_id_index ON kine (name,id)'',
      ''CREATE INDEX kine_id_deleted_index ON kine (id,deleted)'',
      ''CREATE INDEX kine_prev_revision_index ON kine (prev_revision)'',
      ''CREATE UNIQUE INDEX kine_name_prev_revision_uindex ON kine (name, prev_revision)'']"

definition createDB :: string where
  "createDB = ''CREATE DATABASE IF NOT EXISTS ''"

section \<open>Reading the statements of the schema\<close>

text \<open>
  The schema is a list of strings. To say which table, columns and indexes it declares,
  each string is split into words and punctuation and read as one of the two statement
  forms that occur in it.
\<close>

definition is_space :: "char \<Rightarrow> bool" where
  "is_space c = (c = CHR '' '' \<or> c = CHR 0x09 \<or> c = CHR 0x0A \<or> c = CHR 0x0D)"

definition is_punct :: "char \<Rightarrow> bool" where
  "is_punct c = (c = CHR ''('' \<or> c = CHR '')'' \<or> c = CHR '','' \<or> c = CHR '';'')"

fun tokens_acc :: "string \<Rightarrow> string \<Rightarrow> string list" where
  \<comment> \<open>\<open>acc\<close> holds the word being read, last character first.\<close>
  "tokens_acc acc [] = (if acc = [] then [] else [rev acc])"
| "tokens_acc acc (c # cs) =
     (if is_space c then (if acc = [] then [] else [rev acc]) @ tokens_acc [] cs
      else if is_punct c then (if acc = [] then [] else [rev acc]) @ [c] # tokens_acc [] cs
      else tokens_acc (c # acc) cs)"

definition tokens :: "string \<Rightarrow> string list" where
  "tokens s = tokens_acc [] s"

datatype column_type = INTEGER | VARCHAR nat | MEDIUMBLOB

datatype column = Column string column_type bool
  \<comment> \<open>name, type, AUTO\_INCREMENT\<close>

datatype ddl =
    CreateTable bool string "column list" "string list"
      \<comment> \<open>IF NOT EXISTS, table, columns, columns of the primary key\<close>
  | CreateIndex bool string string "string list"
      \<comment> \<open>UNIQUE, index, table, columns\<close>

datatype item = ColumnItem column | PrimaryKeyItem string

fun split_commas :: "string list \<Rightarrow> string list list" where
  "split_commas [] = [[]]"
| "split_commas (t # ts) =
     (if t = '','' then [] # split_commas ts
      else (case split_commas ts of [] \<Rightarrow> [[t]] | g # gs \<Rightarrow> (t # g) # gs))"

fun nat_of_digits :: "nat \<Rightarrow> string \<Rightarrow> nat option" where
  "nat_of_digits n [] = Some n"
| "nat_of_digits n (c # cs) =
     (if 48 \<le> (of_char c :: nat) \<and> (of_char c :: nat) \<le> 57
      then nat_of_digits (10 * n + (of_char c - 48)) cs
      else None)"

definition parse_nat :: "string \<Rightarrow> nat option" where
  "parse_nat s = (if s = [] then None else nat_of_digits 0 s)"

definition parse_item :: "string list \<Rightarrow> item option" where
  "parse_item ts =
     (case ts of
        [n, t] \<Rightarrow>
          if t = ''INTEGER'' then Some (ColumnItem (Column n INTEGER False))
          else if t = ''MEDIUMBLOB'' then Some (ColumnItem (Column n MEDIUMBLOB False))
          else None
      | [n, t, a] \<Rightarrow>
          if t = ''INTEGER'' \<and> a = ''AUTO_INCREMENT''
          then Some (ColumnItem (Column n INTEGER True))
          else None
      | [p, k, l, c, r] \<Rightarrow>
          if p = ''PRIMARY'' \<and> k = ''KEY'' \<and> l = ''('' \<and> r = '')''
          then Some (PrimaryKeyItem c)
          else if k = ''VARCHAR'' \<and> l = ''('' \<and> r = '')''
          then map_option (\<lambda>m. ColumnItem (Column p (VARCHAR m) False)) (parse_nat c)
          else None
      | _ \<Rightarrow> None)"

fun item_columns :: "item option list \<Rightarrow> column list" where
  "item_columns [] = []"
| "item_columns (Some (ColumnItem c) # is) = c # item_columns is"
| "item_columns (i # is) = item_columns is"

fun item_keys :: "item option list \<Rightarrow> string list" where
  "item_keys [] = []"
| "item_keys (Some (PrimaryKeyItem k) # is) = k # item_keys is"
| "item_keys (i # is) = item_keys is"

definition parse_table :: "bool \<Rightarrow> string list \<Rightarrow> ddl option" where
  "parse_table ine ts =
     (case ts of
        nm # lp # rest \<Rightarrow>
          (let body = (if rest \<noteq> [] \<and> last rest = '';'' then butlast rest else rest);
               items = map parse_item (split_commas (butlast body))
           in if lp = ''('' \<and> body \<noteq> [] \<and> last body = '')'' \<and> None \<notin> set items
              then Some (CreateTable ine nm (item_columns items) (item_keys items))
              else None)
      | _ \<Rightarrow> None)"

definition parse_index :: "bool \<Rightarrow> string list \<Rightarrow> ddl option" where
  "parse_index u ts =
     (case ts of
        nm # on # tbl # lp # rest \<Rightarrow>
          (let cols = split_commas (butlast rest)
           in if on = ''ON'' \<and> lp = ''('' \<and> rest \<noteq> [] \<and> last rest = '')''
                 \<and> list_all (\<lambda>g. length g = 1) cols
              then Some (CreateIndex u nm tbl (map hd cols))
              else None)
      | _ \<Rightarrow> None)"

definition parse_ddl :: "string \<Rightarrow> ddl option" where
  "parse_ddl s =
     (case tokens s of
        c # t # rest \<Rightarrow>
          if c = ''CREATE'' \<and> t = ''TABLE'' then
            (if take 3 rest = [''IF'', ''NOT'', ''EXISTS''] then parse_table True (drop 3 rest)
             else parse_table False rest)
          else if c = ''CREATE'' \<and> t = ''INDEX'' then parse_index False rest
          else if c = ''CREATE'' \<and> t = ''UNIQUE'' \<and> take 1 rest = [''INDEX'']
            then parse_index True (drop 1 rest)
          else None
      | _ \<Rightarrow> None)"

section \<open>Connections and statements\<close>

text \<open>
  \<^verbatim>\<open>sql.Open\<close> and \<^verbatim>\<open>db.Exec\<close> act on the database server. The server and the network
  are a state \<open>'w\<close> that every call takes and returns; the two calls are parameters.
  \<^verbatim>\<open>sql.Open\<close> is always called with \<^verbatim>\<open>azuread.DriverName\<close>, which is left out. The
  \<^verbatim>\<open>sql.Result\<close> of \<^verbatim>\<open>db.Exec\<close> is dropped by every caller, so only its error is kept.
  Logging through logrus is left out.
\<close>

type_synonym ('db, 'w) sql_Open = "string \<Rightarrow> 'w \<Rightarrow> (go_error + 'db) \<times> 'w"
type_synonym ('db, 'w) db_Exec = "'db \<Rightarrow> string \<Rightarrow> 'w \<Rightarrow> go_error option \<times> 'w"

fun setup_loop :: "('db, 'w) db_Exec \<Rightarrow> 'db \<Rightarrow> string list \<Rightarrow> 'w \<Rightarrow> go_error option \<times> 'w" where
  \<comment> \<open>\<^verbatim>\<open>for _, stmt := range ...\<close> of \<^verbatim>\<open>setup\<close>, and the \<^verbatim>\<open>return nil\<close> after it.\<close>
  "setup_loop Exec db [] w = (None, w)"
| "setup_loop Exec db (stmt # rest) w =
     (case Exec db stmt w of
        (None, w') \<Rightarrow> setup_loop Exec db rest w'
      | (Some err, w') \<Rightarrow>
          if \<not> is_ServerError err then (Some err, w')
          else setup_loop Exec db rest w')"

definition setup_db :: "('db, 'w) db_Exec \<Rightarrow> 'db \<Rightarrow> 'w \<Rightarrow> go_error option \<times> 'w" where
  \<comment> \<open>The source's function \<^verbatim>\<open>setup\<close>; that name is a command of Isabelle.\<close>
  "setup_db Exec db w = setup_loop Exec db schema w"

definition createDBIfNotExist ::
  "'m msdsn_Parse \<Rightarrow> 'm URL_String \<Rightarrow> ('db, 'w) sql_Open \<Rightarrow> ('db, 'w) db_Exec \<Rightarrow>
   string \<Rightarrow> 'w \<Rightarrow> go_error option \<times> 'w" where
  "createDBIfNotExist Parse URL Open Exec dataSourceName w =
     (case Parse dataSourceName of
        Inl err \<Rightarrow> (Some err, w)
      | Inr config \<Rightarrow>
          let dbName = Database config in
          (case Open dataSourceName w of
             (Inl err, w1) \<Rightarrow> (Some err, w1)
           | (Inr db, w1) \<Rightarrow>
               (case Exec db (createDB @ dbName) w1 of
                  (None, w2) \<Rightarrow> (None, w2)
                | (Some err, w2) \<Rightarrow>
                    if \<not> is_ServerError err then (Some err, w2)
                    else (case Open (URL (config\<lparr>Database := ''''\<rparr>)) w2 of
                            (Inl err', w3) \<Rightarrow> (Some err', w3)
                          | (Inr db', w3) \<Rightarrow>
                              (case Exec db' (createDB @ dbName) w3 of
                                 (Some err'', w4) \<Rightarrow> (Some err'', w4)
                               | (None, w4) \<Rightarrow> (None, w4))))))"

subsection \<open>Runs of a statement list\<close>

fun exec_seq :: "('db, 'w) db_Exec \<Rightarrow> 'db \<Rightarrow> string list \<Rightarrow> 'w \<Rightarrow> 'w" where
  \<comment> \<open>The state after the statements have been executed one after the other.\<close>
  "exec_seq Exec db [] w = w"
| "exec_seq Exec db (stmt # rest) w = exec_seq Exec db rest (snd (Exec db stmt w))"

fun exec_errs :: "('db, 'w) db_Exec \<Rightarrow> 'db \<Rightarrow> string list \<Rightarrow> 'w \<Rightarrow> go_error option list" where
  \<comment> \<open>What each statement of that run returns.\<close>
  "exec_errs Exec db [] w = []"
| "exec_errs Exec db (stmt # rest) w =
     fst (Exec db stmt w) # exec_errs Exec db rest (snd (Exec db stmt w))"

fun tolerated :: "go_error option \<Rightarrow> bool" where
  \<comment> \<open>\<^verbatim>\<open>nil\<close>, or an error on which the loop of \<^verbatim>\<open>setup\<close> goes on.\<close>
  "tolerated None = True"
| "tolerated (Some err) = is_ServerError err"

fun already_exists :: "go_error \<Rightarrow> bool" where
  \<comment> \<open>SQL Server's numbers for "there is already an object named ..." (2714), "the
      index already exists" (1913) and "database already exists" (1801). The source never
      reads the number of a server error.\<close>
  "already_exists (ServerError n m) = (n = 2714 \<or> n = 1913 \<or> n = 1801)"
| "already_exists ErrKeyExists = False"
| "already_exists (OtherError m) = False"

section \<open>The compaction statement\<close>

text \<open>
  \<^verbatim>\<open>dialect.CompactSQL\<close> is a statement of SQL, so its embedding is a function on table
  states:
  \<^verbatim>\<open>
  DELETE kv FROM kine AS kv
  INNER JOIN (
      SELECT kp.prev_revision AS id FROM kine AS kp
      WHERE kp.name != 'compact_rev_key' AND kp.prev_revision != 0 AND kp.id <= ?
      UNION
      SELECT kd.id AS id FROM kine AS kd
      WHERE kd.deleted != 0 AND kd.id <= ?
  ) AS ks
  ON kv.id = ks.id
  \<close>
  A row has the nine columns of the schema. \<open>id\<close> is the primary key and so never NULL;
  every other column is declared without NOT NULL, so its value is an \<open>option\<close>, \<open>None\<close>
  being NULL. A comparison with NULL is not true, and a WHERE or ON clause keeps a row only
  when its condition is true. A table is the list of its rows.
\<close>

record row =
  id_col :: int
  name :: "string option"
  created :: "int option"
  deleted :: "int option"
  create_revision :: "int option"
  prev_revision :: "int option"
  lease :: "int option"
  value_col :: "string option"
  old_value :: "string option"

definition sql_ne :: "'a option \<Rightarrow> 'a \<Rightarrow> bool" where
  \<comment> \<open>\<^verbatim>\<open>x != v\<close> is true: \<open>x\<close> is not NULL and differs from \<open>v\<close>.\<close>
  "sql_ne x v = (case x of None \<Rightarrow> False | Some a \<Rightarrow> a \<noteq> v)"

definition CompactSQL_superseded :: "row list \<Rightarrow> int \<Rightarrow> int option list" where
  \<comment> \<open>The first SELECT, with its parameter.\<close>
  "CompactSQL_superseded kine p =
     [prev_revision kp. kp \<leftarrow> kine,
        sql_ne (name kp) ''compact_rev_key'' \<and> sql_ne (prev_revision kp) 0 \<and> id_col kp \<le> p]"

definition CompactSQL_deleted :: "row list \<Rightarrow> int \<Rightarrow> int option list" where
  \<comment> \<open>The second SELECT, with its parameter.\<close>
  "CompactSQL_deleted kine p =
     [Some (id_col kd). kd \<leftarrow> kine, sql_ne (deleted kd) 0 \<and> id_col kd \<le> p]"

definition CompactSQL_ks :: "row list \<Rightarrow> int \<Rightarrow> int \<Rightarrow> int option list" where
  \<comment> \<open>The derived table \<open>ks\<close>; UNION keeps one copy of each value.\<close>
  "CompactSQL_ks kine p1 p2 = remdups (CompactSQL_superseded kine p1 @ CompactSQL_deleted kine p2)"

definition CompactSQL_rows :: "row list \<Rightarrow> int \<Rightarrow> int \<Rightarrow> row list" where
  \<comment> \<open>The rows of \<open>kv\<close> that the join matches: the rows that the statement deletes.\<close>
  "CompactSQL_rows kine p1 p2 = [kv \<leftarrow> kine. Some (id_col kv) \<in> set (CompactSQL_ks kine p1 p2)]"

definition CompactSQL :: "row list \<Rightarrow> int \<Rightarrow> int \<Rightarrow> row list" where
  \<comment> \<open>The table after the statement.\<close>
  "CompactSQL kine p1 p2 = [kv \<leftarrow> kine. Some (id_col kv) \<notin> set (CompactSQL_ks kine p1 p2)]"

definition supersedes :: "row \<Rightarrow> row \<Rightarrow> bool" where
  \<comment> \<open>\<open>kp\<close> points back to \<open>r\<close>: its previous revision is the id of \<open>r\<close>, it is not a row
      of the reserved key, and its previous revision is not zero.\<close>
  "supersedes kp r =
     (sql_ne (name kp) ''compact_rev_key'' \<and> sql_ne (prev_revision kp) 0
      \<and> prev_revision kp = Some (id_col r))"

definition claimed_compacted :: "row list \<Rightarrow> int \<Rightarrow> row set" where
  \<comment> \<open>The set that the specification gives for a cutoff: the rows at or below the cutoff
      that another row supersedes or that are marked deleted.\<close>
  "claimed_compacted kine C =
     {r \<in> set kine. id_col r \<le> C
        \<and> ((\<exists>kp \<in> set kine. kp \<noteq> r \<and> supersedes kp r) \<or> sql_ne (deleted r) 0)}"

definition history :: "row list" where
  \<comment> \<open>A key created at revision 1, updated at 2 and deleted at 3.\<close>
  "history =
     [\<lparr>id_col = 1, name = Some ''a'', created = Some 1, deleted = Some 0,
       create_revision = Some 0, prev_revision = Some 0, lease = Some 0,
       value_col = Some ''x'', old_value = None\<rparr>,
      \<lparr>id_col = 2, name = Some ''a'', created = Some 0, deleted = Some 0,
       create_revision = Some 1, prev_revision = Some 1, lease = Some 0,
       value_col = Some ''y'', old_value = Some ''x''\<rparr>,
      \<lparr>id_col = 3, name = Some ''a'', created = Some 0, deleted = Some 1,
       create_revision = Some 1, prev_revision = Some 2, lease = Some 0,
       value_col = Some ''y'', old_value = Some ''y''\<rparr>]"

definition forward_pointer :: "row list" where
  \<comment> \<open>A table in which a row names a later row as its previous revision.\<close>
  "forward_pointer =
     [\<lparr>id_col = 1, name = Some ''a'', created = Some 1, deleted = Some 0,
       create_revision = Some 0, prev_revision = Some 5, lease = Some 0,
       value_col = Some ''x'', old_value = None\<rparr>,
      \<lparr>id_col = 5, name = Some ''b'', created = Some 1, deleted = Some 0,
       create_revision = Some 0, prev_revision = Some 0, lease = Some 0,
       value_col = Some ''z'', old_value = None\<rparr>]"

section \<open>A small driver library for concrete runs\<close>

text \<open>
  Connection strings of the form \<open>host/database\<close> or \<open>host/database?tlsconfig=name\<close>:
  everything before the first slash is the host, what follows up to a question mark is
  the database name, and the only option is the name of a registered TLS configuration. A
  string with no slash, or with another option, is malformed.
\<close>

record toy_config = config +
  Host :: string

definition toy_Parse :: "string \<Rightarrow> go_error + toy_config" where
  "toy_Parse s =
     (if CHR ''/'' \<in> set s
      then
       (let host = takeWhile (\<lambda>c. c \<noteq> CHR ''/'') s;
            rest = tl (dropWhile (\<lambda>c. c \<noteq> CHR ''/'') s);
            db = takeWhile (\<lambda>c. c \<noteq> CHR ''?'') rest;
            opt = dropWhile (\<lambda>c. c \<noteq> CHR ''?'') rest
        in if opt = '''' then Inr \<lparr>Database = db, TLSConfig = '''', Host = host\<rparr>
           else if take (length ''?tlsconfig='') opt = ''?tlsconfig=''
             then Inr \<lparr>Database = db, TLSConfig = drop (length ''?tlsconfig='') opt, Host = host\<rparr>
           else Inl (OtherError ''malformed connection string''))
      else Inl (OtherError ''malformed connection string''))"

definition toy_URL :: "toy_config \<Rightarrow> string" where
  "toy_URL c =
     Host c @ ''/'' @ Database c @
     (if TLSConfig c = '''' then '''' else ''?tlsconfig='' @ TLSConfig c)"

definition toy_URL_short :: "toy_config \<Rightarrow> string" where
  \<comment> \<open>A serializer that writes the host and the database name and leaves the option out.
      The \<^verbatim>\<open>URL()\<close> method of the driver's \<^verbatim>\<open>msdsn.Config\<close> is of this kind: it writes the
      host, the credentials, the database name and a few flags, and no other option that
      \<^verbatim>\<open>msdsn.Parse\<close> reads.\<close>
  "toy_URL_short c = Host c @ ''/'' @ Database c"

text \<open>
  A server: the databases and the objects it holds, whether it refuses every create
  statement, how many more network operations the link survives, and the statements that
  reached it. A connection is the name of the database it was opened for.
\<close>

record toy_world =
  databases :: "string list"
  objects :: "string list"
  read_only :: bool
  budget :: nat
  executed :: "string list"

definition toy_Open :: "(string, toy_world) sql_Open" where
  "toy_Open dsn w =
     (if budget w = 0 then (Inl (OtherError ''connection reset''), w)
      else case toy_Parse dsn of
             Inl e \<Rightarrow> (Inl e, w)
           | Inr c \<Rightarrow> (Inr (Database c), w\<lparr>budget := budget w - 1\<rparr>))"

definition toy_Exec :: "(string, toy_world) db_Exec" where
  "toy_Exec conn stmt w =
     (if budget w = 0 then (Some (OtherError ''connection reset''), w)
      else
        let w1 = w\<lparr>budget := budget w - 1, executed := executed w @ [stmt]\<rparr> in
        if conn \<noteq> '''' \<and> conn \<notin> set (databases w)
          then (Some (ServerError 4060 ''cannot open database''), w1)
        else if read_only w
          then (Some (ServerError 262 ''permission denied''), w1)
        else if take (length createDB) stmt = createDB
          then (None, w1\<lparr>databases := List.insert (drop (length createDB) stmt) (databases w)\<rparr>)
        else if stmt \<in> set (objects w)
          then (Some (ServerError 2714 ''there is already an object''), w1)
        else (None, w1\<lparr>objects := objects w @ [stmt]\<rparr>))"

definition fresh_server :: toy_world where
  "fresh_server = \<lparr>databases = [], objects = [], read_only = False, budget = 10, executed = []\<rparr>"

section \<open>Error translation and error codes\<close>

text \<open>
  C5. The error translator maps every dialect server error to the engine's "key already
  exists" error, and returns every other error, \<^verbatim>\<open>nil\<close> included, as it came.
\<close>

theorem TranslateErr_server_error_to_key_exists:
  "TranslateErr (Some (ServerError n m)) = Some ErrKeyExists
   \<and> TranslateErr (Some ErrKeyExists) = Some ErrKeyExists
   \<and> TranslateErr (Some (OtherError m')) = Some (OtherError m')
   \<and> TranslateErr None = None"
  by (simp add: TranslateErr_def)

text \<open>
  C8. The error-code extractor returns the empty string for \<^verbatim>\<open>nil\<close>, the printed form of
  the error for a dialect server error, and the error's message for any other error.
\<close>

theorem ErrCode_cases:
  "ErrCode None = ''''
   \<and> ErrCode (Some (ServerError n m)) = fmt_Sprint (ServerError n m)
   \<and> ErrCode (Some ErrKeyExists) = Error ErrKeyExists
   \<and> ErrCode (Some (OtherError m')) = Error (OtherError m')"
  by (simp add: ErrCode_def)

section \<open>Normalising the connection string\<close>

text \<open>
  C7. For the empty connection string prepareDSN returns the empty string and no error,
  whatever the parser would say of it and whether or not a TLS configuration is given.
\<close>

theorem prepareDSN_empty:
  "prepareDSN Parse URL '''' tlsConfig = Inr ''''"
  by (simp add: prepareDSN_def)

lemma prepareDSN_parsed:
  assumes "dataSourceName \<noteq> ''''" and "Parse dataSourceName = Inr c"
  shows "prepareDSN Parse URL dataSourceName tlsConfig =
      Inr (URL (c\<lparr>Database := (if Database c = '''' then ''kubernetes'' else Database c)\<rparr>))"
  using assms by (simp add: prepareDSN_def)

text \<open>
  C2. For a connection string that is not empty and that parses, prepareDSN returns the
  serialization of the parsed target with the database name "kubernetes" when the input
  has none, and of the parsed target as it is when the input has one. The database name
  that the driver reads from the returned DSN is "kubernetes" in the first case and the
  input's own in the second, as soon as the driver reads back the database name that it
  serialized for this target; nothing is asked of any other field.
\<close>

theorem prepareDSN_database_name:
  assumes "dataSourceName \<noteq> ''''"
      and "Parse dataSourceName = Inr c"
  shows "(Database c = '''' \<longrightarrow>
            prepareDSN Parse URL dataSourceName tlsConfig
              = Inr (URL (c\<lparr>Database := ''kubernetes''\<rparr>)))
       \<and> (Database c \<noteq> '''' \<longrightarrow>
            prepareDSN Parse URL dataSourceName tlsConfig = Inr (URL c))
       \<and> (\<forall>c'. Database c = ''''
              \<and> Parse (URL (c\<lparr>Database := ''kubernetes''\<rparr>)) = Inr c'
              \<and> Database c' = ''kubernetes'' \<longrightarrow>
            map_option Database (dsn_config Parse (prepareDSN Parse URL dataSourceName tlsConfig))
              = Some ''kubernetes'')
       \<and> (\<forall>c'. Database c \<noteq> ''''
              \<and> Parse (URL c) = Inr c'
              \<and> Database c' = Database c \<longrightarrow>
            map_option Database (dsn_config Parse (prepareDSN Parse URL dataSourceName tlsConfig))
              = Some (Database c))"
proof -
  note p = prepareDSN_parsed[where Parse=Parse and URL=URL and tlsConfig=tlsConfig,
      OF assms(1) assms(2)]
  show ?thesis
  proof (cases "Database c = ''''")
    case True
    with p show ?thesis by (simp add: dsn_config_def)
  next
    case False
    with p show ?thesis by (simp add: dsn_config_def)
  qed
qed

theorem prepareDSN_database_name_witness:
  "prepareDSN toy_Parse toy_URL_short ''db.example/?tlsconfig=corp'' None
     = Inr ''db.example/kubernetes''
   \<and> map_option Database
        (dsn_config toy_Parse (prepareDSN toy_Parse toy_URL_short ''db.example/?tlsconfig=corp'' None))
       = Some ''kubernetes''
   \<and> prepareDSN toy_Parse toy_URL_short ''db.example/kine?tlsconfig=corp'' None
       = Inr ''db.example/kine''
   \<and> map_option Database
        (dsn_config toy_Parse (prepareDSN toy_Parse toy_URL_short ''db.example/kine?tlsconfig=corp'' None))
       = Some ''kine''"
proof -
  let ?c0 = "\<lparr>Database = '''', TLSConfig = ''corp'', Host = ''db.example''\<rparr>"
  let ?c1 = "\<lparr>Database = ''kine'', TLSConfig = ''corp'', Host = ''db.example''\<rparr>"
  let ?r0 = "\<lparr>Database = ''kubernetes'', TLSConfig = '''', Host = ''db.example''\<rparr>"
  let ?r1 = "\<lparr>Database = ''kine'', TLSConfig = '''', Host = ''db.example''\<rparr>"
  have u0: "toy_URL_short (?c0\<lparr>Database := ''kubernetes''\<rparr>) = ''db.example/kubernetes''"
    by (simp add: toy_URL_short_def)
  have u1: "toy_URL_short ?c1 = ''db.example/kine''"
    by (simp add: toy_URL_short_def)
  have a1: "''db.example/?tlsconfig=corp'' \<noteq> ''''" by simp
  have a2: "toy_Parse ''db.example/?tlsconfig=corp'' = Inr ?c0" by (simp add: toy_Parse_def)
  have a3: "toy_Parse (toy_URL_short (?c0\<lparr>Database := ''kubernetes''\<rparr>)) = Inr ?r0"
    unfolding u0 by (simp add: toy_Parse_def)
  note A = prepareDSN_database_name[where Parse=toy_Parse and URL=toy_URL_short
      and tlsConfig=None and dataSourceName="''db.example/?tlsconfig=corp''" and c="?c0",
      OF a1 a2]
  have A1: "prepareDSN toy_Parse toy_URL_short ''db.example/?tlsconfig=corp'' None
              = Inr ''db.example/kubernetes''"
    using A u0 by simp
  have A2: "map_option Database
              (dsn_config toy_Parse (prepareDSN toy_Parse toy_URL_short ''db.example/?tlsconfig=corp'' None))
             = Some ''kubernetes''"
  proof -
    from A have "\<forall>c'. Database ?c0 = ''''
              \<and> toy_Parse (toy_URL_short (?c0\<lparr>Database := ''kubernetes''\<rparr>)) = Inr c'
              \<and> Database c' = ''kubernetes'' \<longrightarrow>
            map_option Database
              (dsn_config toy_Parse (prepareDSN toy_Parse toy_URL_short ''db.example/?tlsconfig=corp'' None))
              = Some ''kubernetes''"
      by blast
    moreover have "Database ?c0 = ''''" by simp
    moreover have "Database ?r0 = ''kubernetes''" by simp
    ultimately show ?thesis using a3 by blast
  qed
  have b1: "''db.example/kine?tlsconfig=corp'' \<noteq> ''''" by simp
  have b2: "toy_Parse ''db.example/kine?tlsconfig=corp'' = Inr ?c1" by (simp add: toy_Parse_def)
  have b3: "toy_Parse (toy_URL_short ?c1) = Inr ?r1"
    unfolding u1 by (simp add: toy_Parse_def)
  note B = prepareDSN_database_name[where Parse=toy_Parse and URL=toy_URL_short
      and tlsConfig=None and dataSourceName="''db.example/kine?tlsconfig=corp''" and c="?c1",
      OF b1 b2]
  have B1: "prepareDSN toy_Parse toy_URL_short ''db.example/kine?tlsconfig=corp'' None
              = Inr ''db.example/kine''"
    using B u1 by simp
  have B2: "map_option Database
              (dsn_config toy_Parse (prepareDSN toy_Parse toy_URL_short ''db.example/kine?tlsconfig=corp'' None))
             = Some ''kine''"
  proof -
    from B have "\<forall>c'. Database ?c1 \<noteq> ''''
              \<and> toy_Parse (toy_URL_short ?c1) = Inr c'
              \<and> Database c' = Database ?c1 \<longrightarrow>
            map_option Database
              (dsn_config toy_Parse (prepareDSN toy_Parse toy_URL_short ''db.example/kine?tlsconfig=corp'' None))
              = Some (Database ?c1)"
      by blast
    moreover have "Database ?c1 \<noteq> ''''" by simp
    moreover have "Database ?r1 = Database ?c1" by simp
    moreover have "Database ?c1 = ''kine''" by simp
    ultimately show ?thesis using b3 by metis
  qed
  from A1 A2 B1 B2 show ?thesis by blast
qed




text \<open>
  C6, on the code. prepareDSN returns the same result with a TLS configuration as without
  one: it registers nothing and the target it serializes names no TLS configuration. For
  the connection string \<open>db.example/kine\<close> and a TLS configuration with minimum version
  TLS 1.1 the returned DSN is \<open>db.example/kine\<close>, whose TLS field is empty.
\<close>

theorem prepareDSN_ignores_tlsConfig:
  "prepareDSN Parse URL dataSourceName (Some t) = prepareDSN Parse URL dataSourceName None
   \<and> prepareDSN toy_Parse toy_URL ''db.example/kine'' (Some \<lparr>MinVersion = 770\<rparr>) = Inr ''db.example/kine''
   \<and> dsn_config toy_Parse (prepareDSN toy_Parse toy_URL ''db.example/kine'' (Some \<lparr>MinVersion = 770\<rparr>))
       = Some \<lparr>Database = ''kine'', TLSConfig = '''', Host = ''db.example''\<rparr>"
  by (simp add: prepareDSN_def dsn_config_def toy_Parse_def toy_URL_def)

section \<open>Ensuring that the database exists\<close>

lemma createDBIfNotExist_unfold:
  assumes "Parse dataSourceName = Inr config"
      and "Open dataSourceName w = (Inr db, w')"
      and "Exec db (createDB @ Database config) w' = (r, w'')"
  shows "createDBIfNotExist Parse URL Open Exec dataSourceName w =
     (case r of
        None \<Rightarrow> (None, w'')
      | Some err \<Rightarrow>
          if \<not> is_ServerError err then (Some err, w'')
          else (case Open (URL (config\<lparr>Database := []\<rparr>)) w'' of
                  (Inl err', w3) \<Rightarrow> (Some err', w3)
                | (Inr db', w3) \<Rightarrow> Exec db' (createDB @ Database config) w3))"
proof -
  have last: "\<And>x. (case x of (None, w4) \<Rightarrow> (None, w4) | (Some e, w4) \<Rightarrow> (Some e, w4)) = x"
    by (simp split: prod.split option.split)
  show ?thesis
    unfolding createDBIfNotExist_def
    by (simp add: assms Let_def last split: option.split prod.split sum.split)
qed

text \<open>
  C1. createDBIfNotExist works in two phases. Once the connection string has parsed and
  a connection has been opened with the connection string as it was given, the
  conditional create for the database named in it is issued on that connection. If this
  succeeds the function returns \<^verbatim>\<open>nil\<close>. If it fails with an error that is not a dialect
  server error, that error is returned and nothing else is done. If it fails with a
  dialect server error, a second connection is opened for the target with its database
  field cleared: an error of that open is returned; otherwise the conditional create for
  the same database is issued again, and what it returns (an error, or \<^verbatim>\<open>nil\<close>) is the
  result.
\<close>

theorem createDBIfNotExist_two_phase:
  assumes "Parse dataSourceName = Inr config"
      and "Open dataSourceName w = (Inr db, w')"
      and "Exec db (createDB @ Database config) w' = (r, w'')"
  shows "(r = None \<longrightarrow>
            createDBIfNotExist Parse URL Open Exec dataSourceName w = (None, w''))
       \<and> (\<forall>err. r = Some err \<and> \<not> is_ServerError err \<longrightarrow>
            createDBIfNotExist Parse URL Open Exec dataSourceName w = (Some err, w''))
       \<and> (\<forall>err err' w3. r = Some err \<and> is_ServerError err
              \<and> Open (URL (config\<lparr>Database := ''''\<rparr>)) w'' = (Inl err', w3) \<longrightarrow>
            createDBIfNotExist Parse URL Open Exec dataSourceName w = (Some err', w3))
       \<and> (\<forall>err db' w3. r = Some err \<and> is_ServerError err
              \<and> Open (URL (config\<lparr>Database := ''''\<rparr>)) w'' = (Inr db', w3) \<longrightarrow>
            createDBIfNotExist Parse URL Open Exec dataSourceName w =
              Exec db' (createDB @ Database config) w3)"
proof -
  note u = createDBIfNotExist_unfold[where Parse=Parse and URL=URL and Open=Open and Exec=Exec,
      OF assms(1) assms(2) assms(3)]
  show ?thesis unfolding u by simp
qed

lemma toy_Parse_kine:
  "toy_Parse ''db.example/kine'' = Inr \<lparr>Database = ''kine'', TLSConfig = '''', Host = ''db.example''\<rparr>"
  by (simp add: toy_Parse_def)

theorem createDBIfNotExist_two_phase_witness:
  "createDBIfNotExist toy_Parse toy_URL toy_Open toy_Exec ''db.example/kine''
     (fresh_server\<lparr>databases := [''kine'']\<rparr>)
     = (None, fresh_server\<lparr>databases := [''kine''], budget := 8,
                           executed := [''CREATE DATABASE IF NOT EXISTS kine'']\<rparr>)
   \<and> createDBIfNotExist toy_Parse toy_URL toy_Open toy_Exec ''db.example/kine''
     (fresh_server\<lparr>budget := 1\<rparr>)
     = (Some (OtherError ''connection reset''), fresh_server\<lparr>budget := 0\<rparr>)
   \<and> createDBIfNotExist toy_Parse toy_URL toy_Open toy_Exec ''db.example/kine''
     (fresh_server\<lparr>budget := 2\<rparr>)
     = (Some (OtherError ''connection reset''),
        fresh_server\<lparr>budget := 0, executed := [''CREATE DATABASE IF NOT EXISTS kine'']\<rparr>)
   \<and> createDBIfNotExist toy_Parse toy_URL toy_Open toy_Exec ''db.example/kine'' fresh_server
     = (None, fresh_server\<lparr>databases := [''kine''], budget := 6,
                           executed := [''CREATE DATABASE IF NOT EXISTS kine'',
                                        ''CREATE DATABASE IF NOT EXISTS kine'']\<rparr>)"
proof -
  let ?dsn = "''db.example/kine''"
  let ?c = "\<lparr>Database = ''kine'', TLSConfig = '''', Host = ''db.example''\<rparr>"
  note T = createDBIfNotExist_two_phase[where Parse=toy_Parse and URL=toy_URL and Open=toy_Open
      and Exec=toy_Exec and dataSourceName="?dsn" and config="?c" and db="''kine''"]
  have a: "createDBIfNotExist toy_Parse toy_URL toy_Open toy_Exec ?dsn
     (fresh_server\<lparr>databases := [''kine'']\<rparr>)
     = (None, fresh_server\<lparr>databases := [''kine''], budget := 8,
                           executed := [''CREATE DATABASE IF NOT EXISTS kine'']\<rparr>)"
    using T[where w="fresh_server\<lparr>databases := [''kine'']\<rparr>"
        and w'="fresh_server\<lparr>databases := [''kine''], budget := 9\<rparr>"
        and r=None
        and w''="fresh_server\<lparr>databases := [''kine''], budget := 8,
                           executed := [''CREATE DATABASE IF NOT EXISTS kine'']\<rparr>"]
    by (simp add: fresh_server_def toy_Exec_def toy_Open_def toy_Parse_kine createDB_def)
  have b: "createDBIfNotExist toy_Parse toy_URL toy_Open toy_Exec ?dsn (fresh_server\<lparr>budget := 1\<rparr>)
     = (Some (OtherError ''connection reset''), fresh_server\<lparr>budget := 0\<rparr>)"
    using T[where w="fresh_server\<lparr>budget := 1\<rparr>"
        and w'="fresh_server\<lparr>budget := 0\<rparr>"
        and r="Some (OtherError ''connection reset'')"
        and w''="fresh_server\<lparr>budget := 0\<rparr>"]
    by (simp add: fresh_server_def toy_Exec_def toy_Open_def toy_Parse_kine createDB_def)
  have c: "createDBIfNotExist toy_Parse toy_URL toy_Open toy_Exec ?dsn (fresh_server\<lparr>budget := 2\<rparr>)
     = (Some (OtherError ''connection reset''),
        fresh_server\<lparr>budget := 0, executed := [''CREATE DATABASE IF NOT EXISTS kine'']\<rparr>)"
    using T[where w="fresh_server\<lparr>budget := 2\<rparr>"
        and w'="fresh_server\<lparr>budget := 1\<rparr>"
        and r="Some (ServerError 4060 ''cannot open database'')"
        and w''="fresh_server\<lparr>budget := 0, executed := [''CREATE DATABASE IF NOT EXISTS kine'']\<rparr>"]
    by (simp add: fresh_server_def toy_Exec_def toy_Open_def toy_Parse_kine createDB_def)
  have d: "createDBIfNotExist toy_Parse toy_URL toy_Open toy_Exec ?dsn fresh_server
     = (None, fresh_server\<lparr>databases := [''kine''], budget := 6,
                           executed := [''CREATE DATABASE IF NOT EXISTS kine'',
                                        ''CREATE DATABASE IF NOT EXISTS kine'']\<rparr>)"
    using T[where w=fresh_server
        and w'="fresh_server\<lparr>budget := 9\<rparr>"
        and r="Some (ServerError 4060 ''cannot open database'')"
        and w''="fresh_server\<lparr>budget := 8, executed := [''CREATE DATABASE IF NOT EXISTS kine'']\<rparr>"]
    by (simp add: fresh_server_def toy_Exec_def toy_Open_def toy_Parse_kine toy_Parse_def
        toy_URL_def createDB_def)
  from a b c d show ?thesis by blast
qed

section \<open>Provisioning the schema\<close>

lemma setup_loop_tolerated:
  "list_all tolerated (exec_errs Exec db ss w) \<Longrightarrow>
   setup_loop Exec db ss w = (None, exec_seq Exec db ss w)"
proof (induction ss arbitrary: w)
  case Nil
  then show ?case by simp
next
  case (Cons s ss)
  obtain r w' where ex: "Exec db s w = (r, w')" by (cases "Exec db s w")
  with Cons.prems have t: "tolerated r" and l: "list_all tolerated (exec_errs Exec db ss w')"
    by simp_all
  from Cons.IH[OF l] have ih: "setup_loop Exec db ss w' = (None, exec_seq Exec db ss w')" .
  show ?case
  proof (cases r)
    case None
    with ex ih show ?thesis by simp
  next
    case (Some e)
    with t have "is_ServerError e" by simp
    with Some ex ih show ?thesis by simp
  qed
qed

lemma setup_loop_abort:
  "k < length ss \<Longrightarrow> list_all tolerated (take k (exec_errs Exec db ss w)) \<Longrightarrow>
   exec_errs Exec db ss w ! k = Some e \<Longrightarrow> \<not> is_ServerError e \<Longrightarrow>
   setup_loop Exec db ss w = (Some e, exec_seq Exec db (take (Suc k) ss) w)"
proof (induction ss arbitrary: w k)
  case Nil
  then show ?case by simp
next
  case (Cons s ss)
  obtain r w' where ex: "Exec db s w = (r, w')" by (cases "Exec db s w")
  show ?case
  proof (cases k)
    case 0
    with Cons.prems(3) ex have "r = Some e" by simp
    with Cons.prems(4) ex 0 show ?thesis by simp
  next
    case (Suc j)
    from Cons.prems(1) Suc have j: "j < length ss" by simp
    from Cons.prems(2) Suc ex have t: "tolerated r"
      and l: "list_all tolerated (take j (exec_errs Exec db ss w'))" by simp_all
    from Cons.prems(3) Suc ex have n: "exec_errs Exec db ss w' ! j = Some e" by simp
    from Cons.IH[OF j l n Cons.prems(4)]
    have ih: "setup_loop Exec db ss w' = (Some e, exec_seq Exec db (take (Suc j) ss) w')" .
    show ?thesis
    proof (cases r)
      case None
      with ex ih Suc show ?thesis by simp
    next
      case (Some e')
      with t have "is_ServerError e'" by simp
      with Some ex ih Suc show ?thesis by simp
    qed
  qed
qed

text \<open>
  C3, as the code has it. The statements of the schema are executed in order. A dialect
  server error of any kind, "already exists" or not, is swallowed and execution goes on
  with the next statement: when every statement returns \<^verbatim>\<open>nil\<close> or a dialect server error,
  all of them are executed and the result is \<^verbatim>\<open>nil\<close>. The first error that is not a dialect
  server error aborts provisioning: it is returned, and no later statement is executed.
\<close>

theorem setup_db_swallows_server_errors:
  "(list_all tolerated (exec_errs Exec db schema w) \<longrightarrow>
      setup_db Exec db w = (None, exec_seq Exec db schema w))
   \<and> (\<forall>k e. k < length schema
         \<and> list_all tolerated (take k (exec_errs Exec db schema w))
         \<and> exec_errs Exec db schema w ! k = Some e \<and> \<not> is_ServerError e \<longrightarrow>
      setup_db Exec db w = (Some e, exec_seq Exec db (take (Suc k) schema) w))"
proof (intro conjI impI allI)
  assume "list_all tolerated (exec_errs Exec db schema w)"
  then show "setup_db Exec db w = (None, exec_seq Exec db schema w)"
    unfolding setup_db_def by (rule setup_loop_tolerated)
next
  fix k e
  assume a: "k < length schema
         \<and> list_all tolerated (take k (exec_errs Exec db schema w))
         \<and> exec_errs Exec db schema w ! k = Some e \<and> \<not> is_ServerError e"
  then show "setup_db Exec db w = (Some e, exec_seq Exec db (take (Suc k) schema) w)"
    unfolding setup_db_def using setup_loop_abort[of k schema Exec db w e] by blast
qed

lemma second_start_errs:
  "exec_errs toy_Exec ''kine'' schema (fresh_server\<lparr>databases := [''kine''], objects := schema\<rparr>)
   = replicate 6 (Some (ServerError 2714 ''there is already an object''))"
  by (simp add: schema_def toy_Exec_def fresh_server_def createDB_def kine_table_def nl_def tabs_def numeral_eq_Suc)

theorem setup_db_swallows_server_errors_witness:
  "setup_db toy_Exec ''kine'' (fresh_server\<lparr>databases := [''kine''], objects := schema\<rparr>)
     = (None, fresh_server\<lparr>databases := [''kine''], objects := schema, budget := 4,
                           executed := schema\<rparr>)
   \<and> setup_db toy_Exec ''kine'' (fresh_server\<lparr>databases := [''kine''], read_only := True, budget := 2\<rparr>)
     = (Some (OtherError ''connection reset''),
        fresh_server\<lparr>databases := [''kine''], read_only := True, budget := 0,
                     executed := take 2 schema\<rparr>)"
proof -
  let ?w = "fresh_server\<lparr>databases := [''kine''], objects := schema\<rparr>"
  let ?v = "fresh_server\<lparr>databases := [''kine''], read_only := True, budget := 2\<rparr>"
  note T = setup_db_swallows_server_errors[where Exec=toy_Exec and db="''kine''"]
  have "list_all tolerated (exec_errs toy_Exec ''kine'' schema ?w)"
    by (simp add: second_start_errs numeral_eq_Suc)
  with T[where w="?w"] have "setup_db toy_Exec ''kine'' ?w = (None, exec_seq toy_Exec ''kine'' schema ?w)"
    by blast
  moreover have "exec_seq toy_Exec ''kine'' schema ?w
     = fresh_server\<lparr>databases := [''kine''], objects := schema, budget := 4, executed := schema\<rparr>"
    by (simp add: schema_def toy_Exec_def fresh_server_def createDB_def kine_table_def nl_def tabs_def)
  ultimately have a: "setup_db toy_Exec ''kine'' ?w
     = (None, fresh_server\<lparr>databases := [''kine''], objects := schema, budget := 4,
                           executed := schema\<rparr>)"
    by simp
  have errs: "exec_errs toy_Exec ''kine'' schema ?v
     = [Some (ServerError 262 ''permission denied''), Some (ServerError 262 ''permission denied''),
        Some (OtherError ''connection reset''), Some (OtherError ''connection reset''),
        Some (OtherError ''connection reset''), Some (OtherError ''connection reset'')]"
    by (simp add: schema_def toy_Exec_def fresh_server_def)
  have len: "length schema = 6" by (simp add: schema_def)
  have "(2::nat) < length schema
         \<and> list_all tolerated (take 2 (exec_errs toy_Exec ''kine'' schema ?v))
         \<and> exec_errs toy_Exec ''kine'' schema ?v ! 2 = Some (OtherError ''connection reset'')
         \<and> \<not> is_ServerError (OtherError ''connection reset'')"
    by (simp add: errs len)
  with T[where w="?v"] have "setup_db toy_Exec ''kine'' ?v
     = (Some (OtherError ''connection reset''), exec_seq toy_Exec ''kine'' (take (Suc 2) schema) ?v)"
    by blast
  moreover have "exec_seq toy_Exec ''kine'' (take (Suc 2) schema) ?v
     = fresh_server\<lparr>databases := [''kine''], read_only := True, budget := 0,
                     executed := take 2 schema\<rparr>"
    by (simp add: schema_def toy_Exec_def fresh_server_def)
  ultimately have b: "setup_db toy_Exec ''kine'' ?v
     = (Some (OtherError ''connection reset''),
        fresh_server\<lparr>databases := [''kine''], read_only := True, budget := 0,
                     executed := take 2 schema\<rparr>)"
    by simp
  from a b show ?thesis by blast
qed

text \<open>
  C3 as the claim states it fails. On a server that refuses every create statement, the
  first statement of the schema fails with a dialect server error that is not "already
  exists" (permission denied). Provisioning is not aborted: all six statements are
  executed and the result is \<^verbatim>\<open>nil\<close>.
\<close>

theorem setup_db_non_exists_server_error_counterexample:
  "exec_errs toy_Exec ''kine'' schema (fresh_server\<lparr>databases := [''kine''], read_only := True\<rparr>) ! 0
     = Some (ServerError 262 ''permission denied'')
   \<and> is_ServerError (ServerError 262 ''permission denied'')
   \<and> \<not> already_exists (ServerError 262 ''permission denied'')
   \<and> setup_db toy_Exec ''kine'' (fresh_server\<lparr>databases := [''kine''], read_only := True\<rparr>)
       = (None, fresh_server\<lparr>databases := [''kine''], read_only := True, budget := 4,
                             executed := schema\<rparr>)"
  by (simp add: setup_db_def schema_def toy_Exec_def fresh_server_def)

section \<open>Compaction\<close>

lemma mem_CompactSQL_superseded:
  "x \<in> set (CompactSQL_superseded kine p) \<longleftrightarrow>
     (\<exists>kp \<in> set kine. sql_ne (name kp) ''compact_rev_key'' \<and> sql_ne (prev_revision kp) 0
         \<and> id_col kp \<le> p \<and> prev_revision kp = x)"
  by (auto simp: CompactSQL_superseded_def)

lemma mem_CompactSQL_deleted:
  "Some i \<in> set (CompactSQL_deleted kine p) \<longleftrightarrow>
     (\<exists>kd \<in> set kine. sql_ne (deleted kd) 0 \<and> id_col kd \<le> p \<and> id_col kd = i)"
  by (auto simp: CompactSQL_deleted_def)

lemma CompactSQL_rows_iff:
  "r \<in> set (CompactSQL_rows kine p1 p2) \<longleftrightarrow>
     r \<in> set kine \<and> ((\<exists>kp \<in> set kine. supersedes kp r \<and> id_col kp \<le> p1)
                      \<or> (\<exists>kd \<in> set kine. id_col kd = id_col r \<and> sql_ne (deleted kd) 0 \<and> id_col kd \<le> p2))"
proof -
  have "Some (id_col r) \<in> set (CompactSQL_ks kine p1 p2) \<longleftrightarrow>
        (\<exists>kp \<in> set kine. supersedes kp r \<and> id_col kp \<le> p1)
        \<or> (\<exists>kd \<in> set kine. id_col kd = id_col r \<and> sql_ne (deleted kd) 0 \<and> id_col kd \<le> p2)"
    unfolding CompactSQL_ks_def set_remdups set_append Un_iff
      mem_CompactSQL_superseded mem_CompactSQL_deleted supersedes_def
    by blast
  then show ?thesis by (simp add: CompactSQL_rows_def)
qed

lemma primary_key:
  assumes "distinct (map id_col kine)" and "r \<in> set kine" and "s \<in> set kine"
      and "id_col s = id_col r"
  shows "s = r"
  using assms by (auto simp: distinct_map dest: inj_onD)

text \<open>
  C4, as the code has it. For every table whose ids are unique (id is the primary key)
  and every cutoff, with both parameters of the statement bound to the cutoff, the rows
  deleted are the rows whose id is the previous revision of a row at or below the cutoff
  (a row whose name is not NULL and not the reserved key, and whose previous revision is
  not zero), together with the rows at or below the cutoff that are marked deleted. The
  cutoff bounds the superseding row, not the superseded one. When no row's previous
  revision is above its own id, no row above the cutoff is deleted.
\<close>

theorem CompactSQL_rows_at_cutoff:
  assumes "distinct (map id_col kine)"
  shows "set (CompactSQL_rows kine C C) =
           {r \<in> set kine. (\<exists>kp \<in> set kine. supersedes kp r \<and> id_col kp \<le> C)
                            \<or> (sql_ne (deleted r) 0 \<and> id_col r \<le> C)}
       \<and> ((\<forall>kp \<in> set kine. \<forall>p. prev_revision kp = Some p \<longrightarrow> p \<le> id_col kp) \<longrightarrow>
            (\<forall>r \<in> set (CompactSQL_rows kine C C). id_col r \<le> C))"
proof (intro conjI impI ballI)
  show "set (CompactSQL_rows kine C C) =
           {r \<in> set kine. (\<exists>kp \<in> set kine. supersedes kp r \<and> id_col kp \<le> C)
                            \<or> (sql_ne (deleted r) 0 \<and> id_col r \<le> C)}"
  proof (intro set_eqI iffI)
    fix r assume "r \<in> set (CompactSQL_rows kine C C)"
    then have r: "r \<in> set kine"
      and d: "(\<exists>kp \<in> set kine. supersedes kp r \<and> id_col kp \<le> C)
              \<or> (\<exists>kd \<in> set kine. id_col kd = id_col r \<and> sql_ne (deleted kd) 0 \<and> id_col kd \<le> C)"
      by (simp_all add: CompactSQL_rows_iff)
    from d show "r \<in> {r \<in> set kine. (\<exists>kp \<in> set kine. supersedes kp r \<and> id_col kp \<le> C)
                            \<or> (sql_ne (deleted r) 0 \<and> id_col r \<le> C)}"
    proof
      assume "\<exists>kp \<in> set kine. supersedes kp r \<and> id_col kp \<le> C"
      with r show ?thesis by simp
    next
      assume "\<exists>kd \<in> set kine. id_col kd = id_col r \<and> sql_ne (deleted kd) 0 \<and> id_col kd \<le> C"
      then obtain kd where kd: "kd \<in> set kine" "id_col kd = id_col r"
        "sql_ne (deleted kd) 0" "id_col kd \<le> C" by blast
      from primary_key[OF assms r kd(1) kd(2)] have "kd = r" .
      with kd r show ?thesis by simp
    qed
  next
    fix r assume "r \<in> {r \<in> set kine. (\<exists>kp \<in> set kine. supersedes kp r \<and> id_col kp \<le> C)
                            \<or> (sql_ne (deleted r) 0 \<and> id_col r \<le> C)}"
    then show "r \<in> set (CompactSQL_rows kine C C)"
      unfolding CompactSQL_rows_iff by blast
  qed
next
  fix r
  assume wf: "\<forall>kp \<in> set kine. \<forall>p. prev_revision kp = Some p \<longrightarrow> p \<le> id_col kp"
     and "r \<in> set (CompactSQL_rows kine C C)"
  then have d: "(\<exists>kp \<in> set kine. supersedes kp r \<and> id_col kp \<le> C)
              \<or> (\<exists>kd \<in> set kine. id_col kd = id_col r \<and> sql_ne (deleted kd) 0 \<and> id_col kd \<le> C)"
    by (simp add: CompactSQL_rows_iff)
  then show "id_col r \<le> C"
  proof
    assume "\<exists>kp \<in> set kine. supersedes kp r \<and> id_col kp \<le> C"
    then obtain kp where kp: "kp \<in> set kine" "prev_revision kp = Some (id_col r)" "id_col kp \<le> C"
      by (auto simp: supersedes_def)
    from wf kp(1) kp(2) have "id_col r \<le> id_col kp" by blast
    with kp(3) show ?thesis by simp
  next
    assume "\<exists>kd \<in> set kine. id_col kd = id_col r \<and> sql_ne (deleted kd) 0 \<and> id_col kd \<le> C"
    then show ?thesis by auto
  qed
qed

theorem CompactSQL_rows_at_cutoff_witness:
  "distinct (map id_col history)
   \<and> set (CompactSQL_rows history 2 2) =
           {r \<in> set history. (\<exists>kp \<in> set history. supersedes kp r \<and> id_col kp \<le> 2)
                            \<or> (sql_ne (deleted r) 0 \<and> id_col r \<le> 2)}
   \<and> list_all (\<lambda>r. id_col r \<le> 2) (CompactSQL_rows history 2 2)
   \<and> map id_col (CompactSQL_rows history 2 2) = [1]"
proof -
  have d: "distinct (map id_col history)" by (simp add: history_def)
  have wf: "\<forall>kp \<in> set history. \<forall>p. prev_revision kp = Some p \<longrightarrow> p \<le> id_col kp"
    by (simp add: history_def)
  note T = CompactSQL_rows_at_cutoff[OF d, of 2]
  from T wf have "\<forall>r \<in> set (CompactSQL_rows history 2 2). id_col r \<le> 2" by blast
  then have l: "list_all (\<lambda>r. id_col r \<le> 2) (CompactSQL_rows history 2 2)"
    by (simp add: list_all_iff)
  have m: "map id_col (CompactSQL_rows history 2 2) = [1]"
    by (simp add: CompactSQL_rows_def CompactSQL_ks_def CompactSQL_superseded_def
        CompactSQL_deleted_def history_def sql_ne_def)
  from d T l m show ?thesis by blast
qed

text \<open>
  C4 as the claim states it fails. In the history of one key (created at 1, updated at 2,
  deleted at 3) with cutoff 1, row 1 is at the cutoff and row 2 supersedes it, so the
  claim's set holds row 1; the statement deletes no row, because the superseding row is
  above the cutoff. And in a table where row 1 names row 5 as its previous revision, the
  statement with cutoff 1 deletes row 5.
\<close>

theorem CompactSQL_cutoff_counterexample:
  "CompactSQL_rows history 1 1 = []
   \<and> history ! 0 \<in> claimed_compacted history 1
   \<and> set (CompactSQL_rows history 1 1) \<noteq> claimed_compacted history 1
   \<and> map id_col (CompactSQL_rows forward_pointer 1 1) = [5]"
proof -
  have a: "CompactSQL_rows history 1 1 = []"
    by (simp add: CompactSQL_rows_def CompactSQL_ks_def CompactSQL_superseded_def
        CompactSQL_deleted_def history_def sql_ne_def)
  have b: "history ! 0 \<in> claimed_compacted history 1"
    by (simp add: claimed_compacted_def supersedes_def history_def sql_ne_def)
  have c: "map id_col (CompactSQL_rows forward_pointer 1 1) = [5]"
    by (simp add: CompactSQL_rows_def CompactSQL_ks_def CompactSQL_superseded_def
        CompactSQL_deleted_def forward_pointer_def sql_ne_def)
  from a b have "set (CompactSQL_rows history 1 1) \<noteq> claimed_compacted history 1" by auto
  with a b c show ?thesis by blast
qed

section \<open>The schema\<close>

lemma parse_kine_table:
  "parse_ddl kine_table =
     Some (CreateTable True ''kine''
       [Column ''id'' INTEGER True, Column ''name'' (VARCHAR 630) False,
        Column ''created'' INTEGER False, Column ''deleted'' INTEGER False,
        Column ''create_revision'' INTEGER False, Column ''prev_revision'' INTEGER False,
        Column ''lease'' INTEGER False, Column ''value'' MEDIUMBLOB False,
        Column ''old_value'' MEDIUMBLOB False]
       [''id''])"
  by code_simp

lemma parse_indexes:
  "map parse_ddl (tl schema) =
     [Some (CreateIndex False ''kine_name_index'' ''kine'' [''name'']),
      Some (CreateIndex False ''kine_name_id_index'' ''kine'' [''name'', ''id'']),
      Some (CreateIndex False ''kine_id_deleted_index'' ''kine'' [''id'', ''deleted'']),
      Some (CreateIndex False ''kine_prev_revision_index'' ''kine'' [''prev_revision'']),
      Some (CreateIndex True ''kine_name_prev_revision_uindex'' ''kine''
             [''name'', ''prev_revision''])]"
  by code_simp

text \<open>
  C9. The schema is a list of exactly six statements. Read as DDL, the first creates the
  table \<open>kine\<close> (if it does not exist) with the columns \<open>id\<close> (integer, auto-increment,
  the one column of the primary key), \<open>name\<close> (a string of at most 630 characters),
  \<open>created\<close>, \<open>deleted\<close>, \<open>create_revision\<close>, \<open>prev_revision\<close>, \<open>lease\<close> (integers),
  \<open>value\<close> and \<open>old_value\<close> (medium blobs), in this order and no other column. The next
  four create non-unique indexes on \<open>kine\<close> over (name), (name, id), (id, deleted) and
  (prev_revision), and the last creates a unique index on \<open>kine\<close> over
  (name, prev_revision). The statement that creates the table comes first.
\<close>

theorem schema_is_one_table_and_five_indexes:
  "length schema = 6
   \<and> map parse_ddl schema =
     [Some (CreateTable True ''kine''
        [Column ''id'' INTEGER True, Column ''name'' (VARCHAR 630) False,
         Column ''created'' INTEGER False, Column ''deleted'' INTEGER False,
         Column ''create_revision'' INTEGER False, Column ''prev_revision'' INTEGER False,
         Column ''lease'' INTEGER False, Column ''value'' MEDIUMBLOB False,
         Column ''old_value'' MEDIUMBLOB False]
        [''id'']),
      Some (CreateIndex False ''kine_name_index'' ''kine'' [''name'']),
      Some (CreateIndex False ''kine_name_id_index'' ''kine'' [''name'', ''id'']),
      Some (CreateIndex False ''kine_id_deleted_index'' ''kine'' [''id'', ''deleted'']),
      Some (CreateIndex False ''kine_prev_revision_index'' ''kine'' [''prev_revision'']),
      Some (CreateIndex True ''kine_name_prev_revision_uindex'' ''kine''
             [''name'', ''prev_revision''])]"
proof -
  have s: "schema = kine_table # tl schema" by (simp add: schema_def)
  have l: "length schema = 6" by (simp add: schema_def)
  have "map parse_ddl schema = parse_ddl kine_table # map parse_ddl (tl schema)"
    by (subst s) simp
  with l show ?thesis unfolding parse_kine_table parse_indexes by simp
qed

end
